theory Spec2Isabelle
  imports Main
begin

section \<open>JavaScript values\<close>

text \<open>
  The sources declare their payloads as \<^verbatim>\<open>any\<close>. A value of that type is one of the
  JavaScript primitives or an object. Numbers are carried as integers: no function below
  looks at the numeric payload.
\<close>

datatype jsval =
    JUndefined
  | JNull
  | JBool bool
  | JNum int
  | JStr string
  | JObj "(string \<times> jsval) list"

text \<open>
  \<^verbatim>\<open>args[i]\<close> on a JavaScript array: an index past the end reads \<^verbatim>\<open>undefined\<close>,
  it does not raise.
\<close>

fun js_index :: "jsval list \<Rightarrow> nat \<Rightarrow> jsval" where
  "js_index [] i = JUndefined"
| "js_index (a # as) 0 = a"
| "js_index (a # as) (Suc i) = js_index as i"

text \<open>
  \<^verbatim>\<open>a !== b\<close> where \<^verbatim>\<open>b\<close> is one of the constants \<^verbatim>\<open>undefined\<close> and \<^verbatim>\<open>null\<close>:
  strict inequality does no coercion, so only the very same constant compares equal.
\<close>

fun strict_neq_const :: "jsval \<Rightarrow> jsval \<Rightarrow> bool" where
  "strict_neq_const JUndefined JUndefined = False"
| "strict_neq_const JNull JNull = False"
| "strict_neq_const a b = (a \<noteq> b)"

section \<open>adaptive-expressions: the Exists evaluator\<close>

text \<open>
  \<^verbatim>\<open>
  private static func(args: any[]): boolean {
      return args[0] !== undefined && args[0] !== null;
  }
  \<close>
\<close>

definition Exists_func :: "jsval list \<Rightarrow> bool" where
  "Exists_func args =
     (strict_neq_const (js_index args 0) JUndefined \<and> strict_neq_const (js_index args 0) JNull)"

section \<open>botbuilder-dialogs: dialog.ts\<close>

text \<open>
  \<^verbatim>\<open>interface DialogInstance<T = any> { id: string; state: T; }\<close>
\<close>

record DialogInstance =
  instance_id :: string
  state :: jsval

text \<open>
  \<^verbatim>\<open>enum DialogEndReason { completed, cancelled }\<close>: a TypeScript numeric enum, whose
  members are numbered from zero in declaration order.
\<close>

datatype DialogEndReason = completed | cancelled

fun DialogEndReason_value :: "DialogEndReason \<Rightarrow> nat" where
  "DialogEndReason_value completed = 0"
| "DialogEndReason_value cancelled = 1"

text \<open>
  \<^verbatim>\<open>interface DialogTurnResult<T = any> { hasActive: boolean; hasResult: boolean; result?: T; }\<close>
  An optional property that is left out reads as \<^verbatim>\<open>undefined\<close>, which is
  \<^const>\<open>JUndefined\<close> here.
\<close>

record DialogTurnResult =
  hasActive :: bool
  hasResult :: bool
  result :: jsval

text \<open>
  \<^verbatim>\<open>static EndOfTurn: DialogTurnResult = { hasActive: true, hasResult: false };\<close>
\<close>

definition EndOfTurn :: DialogTurnResult where
  "EndOfTurn = \<lparr> hasActive = True, hasResult = False, result = JUndefined \<rparr>"

text \<open>
  Modelled from the spec: the state of a \<^verbatim>\<open>DialogContext\<close> (\<^verbatim>\<open>./dialogContext\<close>, which
  is not among the sources). It holds the \<^verbatim>\<open>TurnContext\<close> of the turn (of type
  \<open>'c\<close>) and ``the conceptual ordered set of active dialog instances for one
  conversation, most-recent on top'': the active instance is the head of \<open>stack\<close>.
  \<open>endings\<close> records every \<^verbatim>\<open>dialogEnd\<close> notification that was delivered, oldest
  first.
\<close>

record 'c DialogContext =
  turn_context :: 'c
  stack :: "DialogInstance list"
  endings :: "(DialogInstance \<times> DialogEndReason) list"

text \<open>
  The outcome of an operation that returns a \<^verbatim>\<open>Promise<DialogTurnResult>\<close>: the turn
  result together with the state of the context it leaves behind, or \<^const>\<open>None\<close>
  when it does not return.
\<close>

type_synonym 'c turn = "(DialogTurnResult \<times> 'c DialogContext) option"

text \<open>
  Modelled from the spec: the operations of a \<^verbatim>\<open>DialogContext\<close> that a dialog method
  can call on its \<^verbatim>\<open>dc\<close> argument, named in the comments of dialog.ts:
  \<^verbatim>\<open>DialogContext.begin()\<close>, \<^verbatim>\<open>continue()\<close>, \<^verbatim>\<open>end()\<close> and \<^verbatim>\<open>cancelAll()\<close>.
\<close>

record 'c DialogContextOps =
  op_begin :: "string \<Rightarrow> jsval \<Rightarrow> 'c DialogContext \<Rightarrow> 'c turn"
  op_continue :: "'c DialogContext \<Rightarrow> 'c turn"
  op_end :: "jsval \<Rightarrow> 'c DialogContext \<Rightarrow> 'c turn"
  op_cancelAll :: "'c DialogContext \<Rightarrow> 'c DialogContext"

text \<open>
  \<^verbatim>\<open>abstract class Dialog<R = any, O = {}>\<close>. The constructor
  \<^verbatim>\<open>constructor(public readonly id: string) { }\<close> stores its argument in the field
  \<^verbatim>\<open>id\<close>. \<^verbatim>\<open>dialogBegin\<close> is abstract (every dialog has one); the other four
  methods are optional, and a dialog that does not implement one holds \<^const>\<open>None\<close>
  there.

  The methods that take \<^verbatim>\<open>dc: DialogContext\<close> receive the operations of the dialog
  context (the first argument) and its state. The two notification hooks receive only
  the \<^verbatim>\<open>TurnContext\<close> and return nothing (\<^verbatim>\<open>Promise<void>\<close>): their effect is the
  turn context they leave behind.
\<close>

record 'c Dialog =
  dialog_id :: string
  dialogBegin :: "'c DialogContextOps \<Rightarrow> jsval \<Rightarrow> 'c DialogContext \<Rightarrow> 'c turn"
  dialogContinue :: "('c DialogContextOps \<Rightarrow> 'c DialogContext \<Rightarrow> 'c turn) option"
  dialogResume :: "('c DialogContextOps \<Rightarrow> jsval \<Rightarrow> 'c DialogContext \<Rightarrow> 'c turn) option"
  dialogReprompt :: "('c \<Rightarrow> DialogInstance \<Rightarrow> 'c) option"
  dialogEnd :: "('c \<Rightarrow> DialogInstance \<Rightarrow> DialogEndReason \<Rightarrow> 'c) option"

section \<open>botbuilder-dialogs: the dialog context\<close>

text \<open>
  \<^verbatim>\<open>DialogContext\<close> (\<^verbatim>\<open>./dialogContext\<close>, imported by dialog.ts) is not among the
  sources. Its operations are modelled below from the specification's description of
  the stack manager and from the documentation comments of dialog.ts. The dialog set is
  the function \<open>ds\<close> from a dialog id to its dialog.
\<close>

text \<open>
  Modelled from the spec: the removal of the active instance from the stack, which
  \<^verbatim>\<open>DialogContext\<close> does when a dialog ends. ``\<^verbatim>\<open>dialogEnd(context, instance, reason)\<close>:
  optional. Invoked when the instance is being removed from the stack, with \<^verbatim>\<open>reason\<close>
  distinguishing a normal completion from a forced cancellation.''
\<close>

definition endActiveDialog ::
  "(string \<Rightarrow> 'c Dialog) \<Rightarrow> DialogEndReason \<Rightarrow> 'c DialogContext \<Rightarrow> 'c DialogContext" where
  "endActiveDialog ds reason dc =
     (case stack dc of
        [] \<Rightarrow> dc
      | inst # rest \<Rightarrow>
          (case dialogEnd (ds (instance_id inst)) of
             None \<Rightarrow> dc\<lparr>stack := rest\<rparr>
           | Some notify \<Rightarrow>
               dc\<lparr>turn_context := notify (turn_context dc) inst reason,
                  stack := rest,
                  endings := endings dc @ [(inst, reason)]\<rparr>))"

text \<open>
  Modelled from the spec: the loop of \<^verbatim>\<open>DialogContext.cancelAll()\<close>, one removal for
  each instance of the stack, the active (innermost) one first.
\<close>

fun endEach ::
  "(string \<Rightarrow> 'c Dialog) \<Rightarrow> DialogEndReason \<Rightarrow> DialogInstance list \<Rightarrow> 'c DialogContext
     \<Rightarrow> 'c DialogContext" where
  "endEach ds reason [] dc = dc"
| "endEach ds reason (inst # insts) dc = endEach ds reason insts (endActiveDialog ds reason dc)"

text \<open>
  Modelled from the spec: \<^verbatim>\<open>DialogContext.cancelAll()\<close>. ``A stack-wide cancel must
  deliver \<^verbatim>\<open>cancelled\<close> to every instance being torn down''; dialog.ts says of
  \<^verbatim>\<open>cancelled\<close>: ``The dialog was cancelled as part of a call to
  \<^verbatim>\<open>DialogContext.cancelAll()\<close>.''
\<close>

definition cancelAll :: "(string \<Rightarrow> 'c Dialog) \<Rightarrow> 'c DialogContext \<Rightarrow> 'c DialogContext" where
  "cancelAll ds dc = endEach ds cancelled (stack dc) dc"

text \<open>
  Modelled from the spec: the return of control to the active instance with the result
  of the dialog that just ended, as \<^verbatim>\<open>DialogContext.end()\<close> does it. ``Contract if
  absent: the stack manager must auto-end this dialog and forward the child's result one
  level further up the stack''; dialog.ts: ``If this method is NOT implemented then the
  dialog will be automatically ended with a call to \<^verbatim>\<open>DialogContext.end()\<close>. Any result
  passed from the called dialog will be passed to the active dialogs parent.'' With no
  instance left, no dialog is active and the result is that of the turn.
\<close>

definition resumeActive ::
  "(string \<Rightarrow> 'c Dialog) \<Rightarrow> 'c DialogContextOps \<Rightarrow> jsval \<Rightarrow> 'c DialogContext \<Rightarrow> 'c turn" where
  "resumeActive ds ops v dc =
     (case stack dc of
        [] \<Rightarrow> Some (\<lparr> hasActive = False, hasResult = True, result = v \<rparr>, dc)
      | inst # rest \<Rightarrow>
          (case dialogResume (ds (instance_id inst)) of
             Some resume \<Rightarrow> resume ops v dc
           | None \<Rightarrow> op_end ops v dc))"

text \<open>
  Modelled from the spec: \<^verbatim>\<open>DialogContext.end(result)\<close>. The active instance is
  removed with reason \<^verbatim>\<open>completed\<close> (``the dialog ended normally through a call to
  \<^verbatim>\<open>DialogContext.end()\<close>''), then the instance below it is resumed with the result.
\<close>

definition end_step ::
  "(string \<Rightarrow> 'c Dialog) \<Rightarrow> 'c DialogContextOps \<Rightarrow> jsval \<Rightarrow> 'c DialogContext \<Rightarrow> 'c turn" where
  "end_step ds ops v dc = resumeActive ds ops v (endActiveDialog ds completed dc)"

text \<open>
  Modelled from the spec: \<^verbatim>\<open>DialogContext.continue()\<close>. ``\<^verbatim>\<open>dialogContinue\<close>: invoked
  when the instance is the active (top-of-stack) dialog and a new user turn arrives.
  Contract if absent: the stack manager must treat the dialog as auto-ending immediately
  on the next turn.'' With an empty stack no dialog is active and none has completed.
\<close>

definition continue_step ::
  "(string \<Rightarrow> 'c Dialog) \<Rightarrow> 'c DialogContextOps \<Rightarrow> 'c DialogContext \<Rightarrow> 'c turn" where
  "continue_step ds ops dc =
     (case stack dc of
        [] \<Rightarrow> Some (\<lparr> hasActive = False, hasResult = False, result = JUndefined \<rparr>, dc)
      | inst # rest \<Rightarrow>
          (case dialogContinue (ds (instance_id inst)) of
             Some continue \<Rightarrow> continue ops dc
           | None \<Rightarrow> op_end ops JUndefined dc))"

text \<open>
  Modelled from the spec: \<^verbatim>\<open>DialogContext.begin(dialogId, args)\<close>. ``\<^verbatim>\<open>dialogBegin\<close>:
  invoked exactly once when the dialog instance is first pushed onto the stack. Receives
  optional caller-supplied arguments.'' The specification leaves the state of a new
  instance open; it is an empty object here, and no property below depends on it.
\<close>

definition begin_step ::
  "(string \<Rightarrow> 'c Dialog) \<Rightarrow> 'c DialogContextOps \<Rightarrow> string \<Rightarrow> jsval \<Rightarrow> 'c DialogContext
     \<Rightarrow> 'c turn" where
  "begin_step ds ops dialogId args dc =
     dialogBegin (ds dialogId) ops args
       (dc\<lparr>stack := \<lparr> instance_id = dialogId, state = JObj [] \<rparr> # stack dc\<rparr>)"

text \<open>
  Modelled from the spec: the operations a dialog method finds on its
  \<^verbatim>\<open>dc: DialogContext\<close> argument. Dialog methods call back into the context, so the
  operations are indexed by a bound on the depth of such calls: \<open>dc_ops ds n\<close> are the
  operations that may nest \<open>n\<close> deep, and an operation that would need more returns
  \<^const>\<open>None\<close>.
\<close>

primrec dc_ops :: "(string \<Rightarrow> 'c Dialog) \<Rightarrow> nat \<Rightarrow> 'c DialogContextOps" where
  "dc_ops ds 0 =
     \<lparr> op_begin = (\<lambda>dialogId args dc. None),
       op_continue = (\<lambda>dc. None),
       op_end = (\<lambda>v dc. None),
       op_cancelAll = cancelAll ds \<rparr>"
| "dc_ops ds (Suc n) =
     \<lparr> op_begin = begin_step ds (dc_ops ds n),
       op_continue = continue_step ds (dc_ops ds n),
       op_end = end_step ds (dc_ops ds n),
       op_cancelAll = cancelAll ds \<rparr>"

text \<open>
  Modelled from the spec: a new user turn given to the context
  (\<^verbatim>\<open>DialogContext.continue()\<close>), the end of the active dialog
  (\<^verbatim>\<open>DialogContext.end(result)\<close>) and the resumption of the active dialog with a
  child's result, each with a bound \<open>n\<close> on the depth of the calls.
\<close>

definition dc_continue :: "nat \<Rightarrow> (string \<Rightarrow> 'c Dialog) \<Rightarrow> 'c DialogContext \<Rightarrow> 'c turn" where
  "dc_continue n ds dc = op_continue (dc_ops ds n) dc"

definition dc_end :: "nat \<Rightarrow> (string \<Rightarrow> 'c Dialog) \<Rightarrow> jsval \<Rightarrow> 'c DialogContext \<Rightarrow> 'c turn" where
  "dc_end n ds v dc = op_end (dc_ops ds n) v dc"

definition dc_resume :: "nat \<Rightarrow> (string \<Rightarrow> 'c Dialog) \<Rightarrow> jsval \<Rightarrow> 'c DialogContext \<Rightarrow> 'c turn" where
  "dc_resume n ds v dc = resumeActive ds (dc_ops ds n) v dc"

text \<open>
  The two dialogs the equivalences compare with: a \<^verbatim>\<open>dialogContinue\<close> that is
  \<^verbatim>\<open>return await dc.end();\<close> and a \<^verbatim>\<open>dialogResume\<close> that is
  \<^verbatim>\<open>return await dc.end(result);\<close>.
\<close>

definition continue_by_ending :: "'c DialogContextOps \<Rightarrow> 'c DialogContext \<Rightarrow> 'c turn" where
  "continue_by_ending ops dc = op_end ops JUndefined dc"

definition resume_by_forwarding :: "'c DialogContextOps \<Rightarrow> jsval \<Rightarrow> 'c DialogContext \<Rightarrow> 'c turn" where
  "resume_by_forwarding ops v dc = op_end ops v dc"

text \<open>
  What the context runs for a dialog that is given a turn, and for one that is resumed:
  the dialog's own method, or the automatic ending when it has none.
\<close>

definition effective_continue :: "'c Dialog \<Rightarrow> 'c DialogContextOps \<Rightarrow> 'c DialogContext \<Rightarrow> 'c turn" where
  "effective_continue d =
     (case dialogContinue d of Some continue \<Rightarrow> continue | None \<Rightarrow> continue_by_ending)"

definition effective_resume ::
  "'c Dialog \<Rightarrow> 'c DialogContextOps \<Rightarrow> jsval \<Rightarrow> 'c DialogContext \<Rightarrow> 'c turn" where
  "effective_resume d =
     (case dialogResume d of Some resume \<Rightarrow> resume | None \<Rightarrow> resume_by_forwarding)"

section \<open>botbuilder-dialogs: ConfirmPrompt\<close>

text \<open>
  JavaScript truthiness, as the conditions \<^verbatim>\<open>options.retryPrompt\<close> and
  \<^verbatim>\<open>options.prompt\<close> of \<^verbatim>\<open>onPrompt\<close> test it: \<^verbatim>\<open>undefined\<close>, \<^verbatim>\<open>null\<close>,
  \<^verbatim>\<open>false\<close>, zero and the empty string are falsy, every object is truthy.
\<close>

fun truthy :: "jsval \<Rightarrow> bool" where
  "truthy JUndefined = False"
| "truthy JNull = False"
| "truthy (JBool b) = b"
| "truthy (JNum n) = (n \<noteq> 0)"
| "truthy (JStr s) = (s \<noteq> [])"
| "truthy (JObj props) = True"

text \<open>
  \<^verbatim>\<open>PromptOptions\<close> is declared in \<^verbatim>\<open>./prompt\<close>, which is not among the sources;
  \<^verbatim>\<open>onPrompt\<close> reads these four properties of it, each of which may be missing.
\<close>

record PromptOptions =
  prompt :: jsval
  speak :: jsval
  retryPrompt :: jsval
  retrySpeak :: jsval

text \<open>
  The choices of a confirm prompt (\<^verbatim>\<open>prompts.ConfirmChoices\<close>) are an object keyed by
  locale. Objects are held by reference: the store maps a reference to the object it
  denotes, and the static property \<^verbatim>\<open>ConfirmPrompt.choices\<close> is a reference held in
  the program state.
\<close>

type_synonym ConfirmChoices = "string \<rightharpoonup> string list"

record ProgramState =
  heap :: "nat \<rightharpoonup> ConfirmChoices"
  ConfirmPrompt_choices :: nat

text \<open>
  \<^verbatim>\<open>static choices: prompts.ConfirmChoices = { '*': ['yes', 'no'] };\<close>
\<close>

definition initial_state :: ProgramState where
  "initial_state =
     \<lparr> heap = [0 \<mapsto> [''*'' \<mapsto> [''yes'', ''no'']]], ConfirmPrompt_choices = 0 \<rparr>"

text \<open>
  \<^verbatim>\<open>obj[locale] = words\<close> and \<^verbatim>\<open>obj[locale]\<close> on the object behind a reference.
\<close>

definition choices_assign :: "nat \<Rightarrow> string \<Rightarrow> string list \<Rightarrow> ProgramState \<Rightarrow> ProgramState" where
  "choices_assign r locale words s =
     (case heap s r of
        None \<Rightarrow> s
      | Some obj \<Rightarrow> s\<lparr>heap := (heap s)(r \<mapsto> obj(locale \<mapsto> words))\<rparr>)"

definition choices_read :: "nat \<Rightarrow> string \<Rightarrow> ProgramState \<Rightarrow> string list option" where
  "choices_read r locale s = (case heap s r of None \<Rightarrow> None | Some obj \<Rightarrow> obj locale)"

text \<open>
  The prompt of botbuilder-prompts that a \<^verbatim>\<open>ConfirmPrompt\<close> wraps
  (\<^verbatim>\<open>private prompt: prompts.ConfirmPrompt<O>\<close>): the three properties this class
  touches.
\<close>

record prompts_ConfirmPrompt =
  choices :: nat
  style :: jsval
  choiceOptions :: "string \<rightharpoonup> jsval"

record 'v ConfirmPrompt =
  id_field :: string
  validator :: "'v option"
  this_prompt :: prompts_ConfirmPrompt

text \<open>
  \<^verbatim>\<open>
  constructor(dialogId: string, validator?: PromptValidator<boolean, O>, defaultLocale?: string) {
      super(dialogId, validator);
      this.prompt = prompts.createConfirmPrompt(undefined, defaultLocale);
      this.prompt.choices = ConfirmPrompt.choices;
  }
  \<close>
  \<^verbatim>\<open>createConfirmPrompt\<close> belongs to botbuilder-prompts and is a parameter here: given
  its two arguments and the program state it returns the new prompt and the state it
  leaves behind.
\<close>

definition ConfirmPrompt_new ::
  "(jsval \<Rightarrow> string option \<Rightarrow> ProgramState \<Rightarrow> prompts_ConfirmPrompt \<times> ProgramState)
     \<Rightarrow> string \<Rightarrow> 'v option \<Rightarrow> string option \<Rightarrow> ProgramState
     \<Rightarrow> 'v ConfirmPrompt \<times> ProgramState" where
  "ConfirmPrompt_new createConfirmPrompt dialogId validator_arg defaultLocale s =
     (case createConfirmPrompt JUndefined defaultLocale s of
        (p, s') \<Rightarrow>
          (\<lparr> id_field = dialogId, validator = validator_arg,
              this_prompt = p\<lparr>choices := ConfirmPrompt_choices s'\<rparr> \<rparr>, s'))"

text \<open>
  \<^verbatim>\<open>Object.assign(this.prompt.choiceOptions, options); return this;\<close> and
  \<^verbatim>\<open>this.prompt.style = listStyle; return this;\<close>
\<close>

definition ConfirmPrompt_choiceOptions :: "(string \<rightharpoonup> jsval) \<Rightarrow> 'v ConfirmPrompt \<Rightarrow> 'v ConfirmPrompt" where
  "ConfirmPrompt_choiceOptions options this =
     this\<lparr>this_prompt :=
       (this_prompt this)\<lparr>choiceOptions := choiceOptions (this_prompt this) ++ options\<rparr>\<rparr>"

definition ConfirmPrompt_style :: "jsval \<Rightarrow> 'v ConfirmPrompt \<Rightarrow> 'v ConfirmPrompt" where
  "ConfirmPrompt_style listStyle this =
     this\<lparr>this_prompt := (this_prompt this)\<lparr>style := listStyle\<rparr>\<rparr>"

text \<open>
  \<^verbatim>\<open>
  protected async onPrompt(context, state, options, isRetry): Promise<void> {
      if (isRetry && options.retryPrompt) {
          await this.prompt.prompt(context, options.retryPrompt, options.retrySpeak);
      } else if (options.prompt) {
          await this.prompt.prompt(context, options.prompt, options.speak);
      }
  }
  \<close>
  \<^verbatim>\<open>this.prompt.prompt\<close>, the method of botbuilder-prompts that renders a prompt, is the
  parameter \<open>render\<close>: from the wrapped prompt, the turn context, the prompt and what
  to speak, it gives the turn context after rendering.
\<close>

definition onPrompt ::
  "(prompts_ConfirmPrompt \<Rightarrow> 'c \<Rightarrow> jsval \<Rightarrow> jsval \<Rightarrow> 'c)
     \<Rightarrow> 'v ConfirmPrompt \<Rightarrow> 'c \<Rightarrow> jsval \<Rightarrow> PromptOptions \<Rightarrow> bool \<Rightarrow> 'c" where
  "onPrompt render this context_arg state_arg options isRetry =
     (if isRetry \<and> truthy (retryPrompt options) then
        render (this_prompt this) context_arg (retryPrompt options) (retrySpeak options)
      else if truthy (prompt options) then
        render (this_prompt this) context_arg (prompt options) (speak options)
      else context_arg)"

text \<open>
  A turn context that is the list of what was rendered into it (prompt and speech),
  oldest first, and the rendering that appends to it.
\<close>

definition render_log ::
  "prompts_ConfirmPrompt \<Rightarrow> (jsval \<times> jsval) list \<Rightarrow> jsval \<Rightarrow> jsval \<Rightarrow> (jsval \<times> jsval) list" where
  "render_log p context_arg text_arg speak_arg = context_arg @ [(text_arg, speak_arg)]"

section \<open>ConversationUpdateBot\<close>

text \<open>
  Of \<^verbatim>\<open>ChannelAccount\<close> and \<^verbatim>\<open>TeamInfo\<close> (declared in botbuilder) the handlers read
  \<^verbatim>\<open>account.id\<close> and \<^verbatim>\<open>teamInfo.name\<close>; the name of a team may be missing. A
  \<^verbatim>\<open>teamInfo\<close> argument that is \<^verbatim>\<open>undefined\<close> or \<^verbatim>\<open>null\<close> is \<^const>\<open>None\<close>.
\<close>

record ChannelAccount =
  account_id :: string

record TeamInfo =
  team_name :: "string option"

text \<open>
  The message the two handlers send: \<^verbatim>\<open>CardFactory.heroCard(title, text)\<close> wrapped
  by \<^verbatim>\<open>MessageFactory.attachment\<close>.
\<close>

datatype Activity = HeroCard_message string string

datatype js_error = TypeError

text \<open>
  What a handler acts on: the activities sent through \<^verbatim>\<open>context.sendActivity\<close> and
  the values written by \<^verbatim>\<open>console.log(JSON.stringify(...))\<close>, both oldest first. A
  handler returns the state it reached and the exception it raised, if any.
\<close>

record BotState =
  sent :: "Activity list"
  console :: "ChannelAccount list list"

type_synonym handler_result = "BotState \<times> js_error option"

definition sendActivity :: "Activity \<Rightarrow> BotState \<Rightarrow> BotState" where
  "sendActivity a s = s\<lparr>sent := sent s @ [a]\<rparr>"

definition console_log :: "ChannelAccount list \<Rightarrow> BotState \<Rightarrow> BotState" where
  "console_log members s = s\<lparr>console := console s @ [members]\<rparr>"

text \<open>
  \<^verbatim>\<open>members.forEach((account) => { acc += account.id + ' '; });\<close>
\<close>

fun forEach_ids :: "string \<Rightarrow> ChannelAccount list \<Rightarrow> string" where
  "forEach_ids acc [] = acc"
| "forEach_ids acc (account # accounts) = forEach_ids (acc @ account_id account @ '' '') accounts"

text \<open>A template literal prints a missing string as \<^verbatim>\<open>undefined\<close>.\<close>

definition template_string :: "string option \<Rightarrow> string" where
  "template_string v = (case v of None \<Rightarrow> ''undefined'' | Some s \<Rightarrow> s)"

text \<open>
  \<^verbatim>\<open>
  this.onTeamsMembersAddedEvent(async (membersAdded, teamInfo, context, next) => {
      let newMembers: string = '';
      console.log(JSON.stringify(membersAdded));
      membersAdded.forEach((account) => { newMembers += account.id + ' '; });
      const name = !teamInfo ? 'not in team' : teamInfo.name;
      const card = CardFactory.heroCard('Account Added', `${newMembers} joined ${name}.`);
      const message = MessageFactory.attachment(card);
      await context.sendActivity(message);
      await next();
  });
  \<close>
\<close>

definition onTeamsMembersAddedEvent_handler ::
  "ChannelAccount list \<Rightarrow> TeamInfo option \<Rightarrow> (BotState \<Rightarrow> handler_result) \<Rightarrow> BotState
     \<Rightarrow> handler_result" where
  "onTeamsMembersAddedEvent_handler membersAdded teamInfo next_handler s =
     (let s1 = console_log membersAdded s;
          newMembers = forEach_ids [] membersAdded;
          name = (case teamInfo of None \<Rightarrow> Some ''not in team'' | Some t \<Rightarrow> team_name t);
          card = HeroCard_message ''Account Added''
                   (newMembers @ '' joined '' @ template_string name @ ''.'');
          s2 = sendActivity card s1
      in next_handler s2)"

text \<open>
  \<^verbatim>\<open>
  this.onTeamsMembersRemovedEvent(async (membersRemoved, teamInfo, context, next) => {
      let removedMembers: string = '';
      console.log(JSON.stringify(membersRemoved));
      membersRemoved.forEach((account) => { removedMembers += account.id + ' '; });
      const name = !teamInfo ? 'not in team' : teamInfo.name;
      const card = CardFactory.heroCard('Account Removed',
          `${removedMembers} removed from ${teamInfo.name}.`);
      const message = MessageFactory.attachment(card);
      await context.sendActivity(message);
      await next();
  });
  \<close>
  Reading \<^verbatim>\<open>teamInfo.name\<close> when \<^verbatim>\<open>teamInfo\<close> is \<^verbatim>\<open>undefined\<close> or \<^verbatim>\<open>null\<close>
  raises a \<^verbatim>\<open>TypeError\<close>.
\<close>

definition onTeamsMembersRemovedEvent_handler ::
  "ChannelAccount list \<Rightarrow> TeamInfo option \<Rightarrow> (BotState \<Rightarrow> handler_result) \<Rightarrow> BotState
     \<Rightarrow> handler_result" where
  "onTeamsMembersRemovedEvent_handler membersRemoved teamInfo next_handler s =
     (let s1 = console_log membersRemoved s;
          removedMembers = forEach_ids [] membersRemoved;
          name = (case teamInfo of None \<Rightarrow> Some ''not in team'' | Some t \<Rightarrow> team_name t)
      in case teamInfo of
           None \<Rightarrow> (s1, Some TypeError)
         | Some t \<Rightarrow>
             (let card = HeroCard_message ''Account Removed''
                           (removedMembers @ '' removed from '' @ template_string (team_name t) @ ''.'');
                  s2 = sendActivity card s1
              in next_handler s2))"

section \<open>Example values\<close>

text \<open>
  A dialog set of two dialogs over a turn context that is a counter. The child
  implements neither \<^verbatim>\<open>dialogContinue\<close> nor \<^verbatim>\<open>dialogResume\<close>; its
  \<^verbatim>\<open>dialogEnd\<close> adds one to the counter. The parent keeps the value it is resumed
  with in the state of its instance and ends the turn; its \<^verbatim>\<open>dialogEnd\<close> adds ten.
\<close>

definition child_dialog :: "nat Dialog" where
  "child_dialog =
     \<lparr> dialog_id = ''child'',
       dialogBegin = (\<lambda>ops args dc. Some (EndOfTurn, dc)),
       dialogContinue = None,
       dialogResume = None,
       dialogReprompt = None,
       dialogEnd = Some (\<lambda>c inst reason. c + 1) \<rparr>"

definition parent_dialog :: "nat Dialog" where
  "parent_dialog =
     \<lparr> dialog_id = ''parent'',
       dialogBegin = (\<lambda>ops args dc. op_begin ops ''child'' args dc),
       dialogContinue = Some (\<lambda>ops dc. Some (EndOfTurn, dc)),
       dialogResume =
         Some (\<lambda>ops v dc.
           Some (EndOfTurn,
                 dc\<lparr>stack := (case stack dc of [] \<Rightarrow> [] | inst # rest \<Rightarrow> inst\<lparr>state := v\<rparr> # rest)\<rparr>)),
       dialogReprompt = None,
       dialogEnd = Some (\<lambda>c inst reason. c + 10) \<rparr>"

definition example_dialogs :: "string \<Rightarrow> nat Dialog" where
  "example_dialogs i = (if i = ''child'' then child_dialog else parent_dialog)"

definition child_instance :: DialogInstance where
  "child_instance = \<lparr> instance_id = ''child'', state = JObj [] \<rparr>"

definition parent_instance :: DialogInstance where
  "parent_instance = \<lparr> instance_id = ''parent'', state = JObj [] \<rparr>"

definition example_context :: "nat DialogContext" where
  "example_context =
     \<lparr> turn_context = 0, stack = [child_instance, parent_instance], endings = [] \<rparr>"

text \<open>
  A dialog set over a turn context that is the list of the end notifications the dialogs
  received: the \<^verbatim>\<open>dialogEnd\<close> of every dialog appends the instance and the reason it
  was called with.
\<close>

definition recording_dialog :: "string \<Rightarrow> (DialogInstance \<times> DialogEndReason) list Dialog" where
  "recording_dialog i =
     \<lparr> dialog_id = i,
       dialogBegin = (\<lambda>ops args dc. Some (EndOfTurn, dc)),
       dialogContinue = None,
       dialogResume = None,
       dialogReprompt = None,
       dialogEnd = Some (\<lambda>c inst reason. c @ [(inst, reason)]) \<rparr>"

definition recording_context :: "(DialogInstance \<times> DialogEndReason) list DialogContext" where
  "recording_context =
     \<lparr> turn_context = [], stack = [child_instance, parent_instance], endings = [] \<rparr>"

text \<open>
  A confirm prompt, and a \<^verbatim>\<open>createConfirmPrompt\<close> that gives the new prompt a choices
  object of its own at the reference \<open>r\<close>.
\<close>

definition createConfirmPrompt_at ::
  "nat \<Rightarrow> jsval \<Rightarrow> string option \<Rightarrow> ProgramState \<Rightarrow> prompts_ConfirmPrompt \<times> ProgramState" where
  "createConfirmPrompt_at r validator_arg defaultLocale s =
     (\<lparr> choices = r, style = JUndefined, choiceOptions = Map.empty \<rparr>,
      s\<lparr>heap := (heap s)(r \<mapsto> [''*'' \<mapsto> [''yes'', ''no'']])\<rparr>)"

definition example_prompt :: "unit ConfirmPrompt" where
  "example_prompt =
     \<lparr> id_field = ''confirmPrompt'', validator = None,
       this_prompt = \<lparr> choices = 0, style = JUndefined, choiceOptions = Map.empty \<rparr> \<rparr>"

definition no_options :: PromptOptions where
  "no_options =
     \<lparr> prompt = JUndefined, speak = JUndefined, retryPrompt = JUndefined, retrySpeak = JUndefined \<rparr>"

text \<open>
  Two confirm prompts constructed around one assignment through the static property:
  \<^verbatim>\<open>new ConfirmPrompt('confirmPrompt')\<close>, then
  \<^verbatim>\<open>ConfirmPrompt.choices['es'] = ['si', 'no']\<close>, then
  \<^verbatim>\<open>new ConfirmPrompt('confirmAgain')\<close>.
\<close>

definition first_construction :: "unit ConfirmPrompt \<times> ProgramState" where
  "first_construction =
     ConfirmPrompt_new (createConfirmPrompt_at 1) ''confirmPrompt'' None None initial_state"

definition mutated_state :: ProgramState where
  "mutated_state =
     choices_assign (ConfirmPrompt_choices (snd first_construction)) ''es'' [''si'', ''no'']
       (snd first_construction)"

definition second_construction :: "unit ConfirmPrompt \<times> ProgramState" where
  "second_construction =
     ConfirmPrompt_new (createConfirmPrompt_at 1) ''confirmAgain'' None None mutated_state"

section \<open>Properties\<close>

subsection \<open>The turn result and its sentinel\<close>

text \<open>
  Claim C1. The static sentinel \<^verbatim>\<open>Dialog.EndOfTurn\<close> is the turn result with
  \<^verbatim>\<open>hasActive\<close> true and \<^verbatim>\<open>hasResult\<close> false, and its \<^verbatim>\<open>result\<close> field holds no
  value other than \<^verbatim>\<open>undefined\<close>.
\<close>

theorem EndOfTurn_sentinel:
  "hasActive EndOfTurn = True \<and> hasResult EndOfTurn = False \<and> result EndOfTurn = JUndefined"
  by (simp add: EndOfTurn_def)

text \<open>
  Claim C2. The two flags of a turn result are independent of each other and of the
  result field: for any choice of \<^verbatim>\<open>hasActive\<close>, of \<^verbatim>\<open>hasResult\<close> and of a result value
  (\<^verbatim>\<open>undefined\<close> or not) there is a \<^verbatim>\<open>DialogTurnResult\<close> with exactly these fields. In
  particular \<^verbatim>\<open>hasResult\<close> can be true together with \<^verbatim>\<open>hasActive\<close>, and together with
  an \<^verbatim>\<open>undefined\<close> result.
\<close>

theorem DialogTurnResult_flags_independent:
  "\<exists>d :: DialogTurnResult. hasActive d = a \<and> hasResult d = r \<and> result d = v"
proof
  show "hasActive \<lparr> hasActive = a, hasResult = r, result = v \<rparr> = a \<and>
        hasResult \<lparr> hasActive = a, hasResult = r, result = v \<rparr> = r \<and>
        result \<lparr> hasActive = a, hasResult = r, result = v \<rparr> = v"
    by simp
qed

subsection \<open>The Exists evaluator\<close>

lemma strict_neq_const_undefined: "strict_neq_const a JUndefined = (a \<noteq> JUndefined)"
  by (cases a) simp_all

lemma strict_neq_const_null: "strict_neq_const a JNull = (a \<noteq> JNull)"
  by (cases a) simp_all

text \<open>
  Claim C8. \<^verbatim>\<open>Exists.func\<close> is a null/undefined predicate on its first argument: it
  returns true exactly when there is a first argument and that argument is neither
  \<^verbatim>\<open>undefined\<close> nor \<^verbatim>\<open>null\<close> (a missing first argument reads as \<^verbatim>\<open>undefined\<close>), and
  the other arguments do not matter.
\<close>

theorem Exists_func_null_undefined_predicate:
  "Exists_func [] = False \<and>
   Exists_func (a # rest) = (a \<noteq> JUndefined \<and> a \<noteq> JNull) \<and>
   Exists_func (a # rest) = Exists_func (a # rest')"
  by (simp add: Exists_func_def strict_neq_const_undefined strict_neq_const_null)

subsection \<open>The identifier of a confirm prompt\<close>

lemma ConfirmPrompt_id_field:
  "id_field (fst (ConfirmPrompt_new create dialogId v l s)) = dialogId \<and>
   id_field (ConfirmPrompt_style listStyle this) = id_field this \<and>
   id_field (ConfirmPrompt_choiceOptions options this) = id_field this"
  by (simp add: ConfirmPrompt_new_def ConfirmPrompt_style_def ConfirmPrompt_choiceOptions_def
      split: prod.splits)

subsection \<open>Removing instances from the stack\<close>

lemma stack_endActiveDialog: "stack (endActiveDialog ds reason dc) = tl (stack dc)"
  by (simp add: endActiveDialog_def split: list.splits option.splits)

lemma endings_endActiveDialog:
  "endings (endActiveDialog ds reason dc) =
     endings dc @ map (\<lambda>inst. (inst, reason))
       (filter (\<lambda>inst. dialogEnd (ds (instance_id inst)) \<noteq> None) (take 1 (stack dc)))"
  by (auto simp add: endActiveDialog_def split: list.splits option.splits)

lemma turn_context_endActiveDialog:
  "turn_context (endActiveDialog ds reason dc) =
     fold (\<lambda>inst c. case dialogEnd (ds (instance_id inst)) of
                       None \<Rightarrow> c
                     | Some notify \<Rightarrow> notify c inst reason)
       (take 1 (stack dc)) (turn_context dc)"
  by (simp add: endActiveDialog_def split: list.splits option.splits)

lemma endEach_stack:
  "stack dc = insts \<Longrightarrow>
     stack (endEach ds reason insts dc) = [] \<and>
     endings (endEach ds reason insts dc) =
       endings dc @ map (\<lambda>inst. (inst, reason))
         (filter (\<lambda>inst. dialogEnd (ds (instance_id inst)) \<noteq> None) insts)"
proof (induction insts arbitrary: dc)
  case Nil
  then show ?case by simp
next
  case (Cons inst insts)
  have "stack (endActiveDialog ds reason dc) = insts"
    using Cons.prems by (simp add: stack_endActiveDialog)
  from Cons.IH [OF this] show ?case
    using Cons.prems by (simp add: endings_endActiveDialog)
qed

lemma endEach_turn_context:
  "stack dc = insts \<Longrightarrow>
     turn_context (endEach ds reason insts dc) =
       fold (\<lambda>inst c. case dialogEnd (ds (instance_id inst)) of
                         None \<Rightarrow> c
                       | Some notify \<Rightarrow> notify c inst reason)
         insts (turn_context dc)"
proof (induction insts arbitrary: dc)
  case Nil
  then show ?case by simp
next
  case (Cons inst insts)
  have "stack (endActiveDialog ds reason dc) = insts"
    using Cons.prems by (simp add: stack_endActiveDialog)
  from Cons.IH [OF this] show ?case
    using Cons.prems by (simp add: turn_context_endActiveDialog)
qed

text \<open>
  Dialogs whose \<^verbatim>\<open>dialogEnd\<close> records the reason it is called with: after a cancel of
  the whole stack every instance has recorded \<^verbatim>\<open>cancelled\<close>, the active one first.
\<close>

lemma cancelAll_recorded:
  "turn_context (cancelAll recording_dialog dc) =
     turn_context dc @ map (\<lambda>inst. (inst, cancelled)) (stack dc)"
proof -
  have "fold (\<lambda>inst c. c @ [(inst, cancelled)]) insts c0 =
          c0 @ map (\<lambda>inst. (inst, cancelled)) insts" for insts and c0 :: "(DialogInstance \<times> DialogEndReason) list"
    by (induction insts arbitrary: c0) simp_all
  then show ?thesis
    using endEach_turn_context [of dc "stack dc" recording_dialog cancelled]
    by (simp add: cancelAll_def recording_dialog_def)
qed

text \<open>
  Claim C5. \<^verbatim>\<open>DialogEndReason.completed\<close> and \<^verbatim>\<open>DialogEndReason.cancelled\<close> are
  distinct tags with the fixed values 0 and 1, and a cancel of the whole stack removes
  every instance and delivers the reason \<^verbatim>\<open>cancelled\<close>, never \<^verbatim>\<open>completed\<close>, to each
  instance it tears down: the turn context it leaves behind is the one obtained by
  calling, for each instance of the stack in turn (the active one first), the
  \<^verbatim>\<open>dialogEnd\<close> of its dialog, when it has one, with that instance and the reason
  \<^verbatim>\<open>cancelled\<close>, and the notifications it adds to the record are exactly these
  instances, each with \<^verbatim>\<open>cancelled\<close>.
\<close>

theorem cancelAll_delivers_cancelled:
  "completed \<noteq> cancelled \<and>
   DialogEndReason_value completed = 0 \<and> DialogEndReason_value cancelled = 1 \<and>
   stack (cancelAll ds dc) = [] \<and>
   turn_context (cancelAll ds dc) =
     fold (\<lambda>inst c. case dialogEnd (ds (instance_id inst)) of
                       None \<Rightarrow> c
                     | Some notify \<Rightarrow> notify c inst cancelled)
       (stack dc) (turn_context dc) \<and>
   endings (cancelAll ds dc) =
     endings dc @ map (\<lambda>inst. (inst, cancelled))
       (filter (\<lambda>inst. dialogEnd (ds (instance_id inst)) \<noteq> None) (stack dc))"
  using endEach_stack [of dc "stack dc" ds cancelled]
    endEach_turn_context [of dc "stack dc" ds cancelled]
  by (simp add: cancelAll_def)

theorem cancelAll_delivers_cancelled_witness:
  "cancelAll recording_dialog recording_context =
     \<lparr> turn_context = [(child_instance, cancelled), (parent_instance, cancelled)],
       stack = [],
       endings = [(child_instance, cancelled), (parent_instance, cancelled)] \<rparr> \<and>
   cancelAll example_dialogs example_context =
     \<lparr> turn_context = 11, stack = [],
       endings = [(child_instance, cancelled), (parent_instance, cancelled)] \<rparr>"
  using cancelAll_delivers_cancelled [of recording_dialog recording_context]
    cancelAll_delivers_cancelled [of example_dialogs example_context]
  by (simp add: cancelAll_def endActiveDialog_def example_context_def example_dialogs_def
      child_dialog_def parent_dialog_def child_instance_def parent_instance_def
      recording_dialog_def recording_context_def)

subsection \<open>Dialogs without a continuation or a resumption\<close>

text \<open>
  The operations of the context depend on a dialog set only through what each dialog
  does when begun, when notified of its end, when given a turn and when resumed.
\<close>

lemma endActiveDialog_hooks:
  assumes "\<And>j. dialogEnd (ds' j) = dialogEnd (ds j)"
  shows "endActiveDialog ds' reason dc = endActiveDialog ds reason dc"
  by (simp add: endActiveDialog_def assms split: list.splits)

lemma endEach_hooks:
  assumes "\<And>j. dialogEnd (ds' j) = dialogEnd (ds j)"
  shows "endEach ds' reason insts dc = endEach ds reason insts dc"
  by (induction insts arbitrary: dc) (simp_all add: endActiveDialog_hooks [OF assms])

lemma cancelAll_hooks:
  assumes "\<And>j. dialogEnd (ds' j) = dialogEnd (ds j)"
  shows "cancelAll ds' = cancelAll ds"
  by (rule ext) (simp add: cancelAll_def endEach_hooks [OF assms])

lemma continue_step_effective:
  "continue_step ds ops dc =
     (case stack dc of
        [] \<Rightarrow> Some (\<lparr> hasActive = False, hasResult = False, result = JUndefined \<rparr>, dc)
      | inst # rest \<Rightarrow> effective_continue (ds (instance_id inst)) ops dc)"
  by (simp add: continue_step_def effective_continue_def continue_by_ending_def
      split: list.splits option.splits)

lemma resumeActive_effective:
  "resumeActive ds ops v dc =
     (case stack dc of
        [] \<Rightarrow> Some (\<lparr> hasActive = False, hasResult = True, result = v \<rparr>, dc)
      | inst # rest \<Rightarrow> effective_resume (ds (instance_id inst)) ops v dc)"
  by (simp add: resumeActive_def effective_resume_def resume_by_forwarding_def
      split: list.splits option.splits)

lemma dc_ops_same:
  assumes b: "\<And>j. dialogBegin (ds' j) = dialogBegin (ds j)"
    and e: "\<And>j. dialogEnd (ds' j) = dialogEnd (ds j)"
    and c: "\<And>j. effective_continue (ds' j) = effective_continue (ds j)"
    and r: "\<And>j. effective_resume (ds' j) = effective_resume (ds j)"
  shows "dc_ops ds' n = dc_ops ds n"
proof (induction n)
  case 0
  show ?case by (simp add: cancelAll_hooks [OF e])
next
  case (Suc n)
  have "begin_step ds' (dc_ops ds n) = begin_step ds (dc_ops ds n)"
    by (intro ext) (simp add: begin_step_def b)
  moreover have "continue_step ds' (dc_ops ds n) = continue_step ds (dc_ops ds n)"
    by (intro ext) (simp add: continue_step_effective c split: list.splits)
  moreover have "end_step ds' (dc_ops ds n) = end_step ds (dc_ops ds n)"
    by (intro ext)
      (simp add: end_step_def resumeActive_effective r endActiveDialog_hooks [OF e]
        split: list.splits)
  ultimately show ?case
    by (simp add: Suc.IH cancelAll_hooks [OF e])
qed

text \<open>
  Ending a dialog returns when no instance below the active one has a
  \<^verbatim>\<open>dialogResume\<close>: every instance is ended in turn, and the result is that of the
  turn. A bound of the height of the stack is enough.
\<close>

lemma dc_end_auto_returns:
  assumes "\<forall>inst \<in> set (tl (stack dc)). dialogResume (ds (instance_id inst)) = None"
    and "length (stack dc) \<le> Suc n"
  shows "dc_end (Suc n) ds v dc =
           Some (\<lparr> hasActive = False, hasResult = True, result = v \<rparr>,
                 endEach ds completed (stack dc) dc)"
  using assms
proof (induction n arbitrary: dc)
  case 0
  then show ?case
    by (cases "stack dc")
      (simp_all add: dc_end_def end_step_def resumeActive_def endActiveDialog_def
        split: option.splits)
next
  case (Suc n)
  show ?case
  proof (cases "stack dc")
    case Nil
    then show ?thesis
      by (simp add: dc_end_def end_step_def resumeActive_def endActiveDialog_def)
  next
    case (Cons inst rest)
    let ?dc1 = "endActiveDialog ds completed dc"
    have st: "stack ?dc1 = rest"
      using Cons by (simp add: stack_endActiveDialog)
    show ?thesis
    proof (cases rest)
      case Nil
      then show ?thesis
        using Cons st by (simp add: dc_end_def end_step_def resumeActive_def)
    next
      case (Cons inst' rest')
      have none: "dialogResume (ds (instance_id inst')) = None"
        using Suc.prems(1) \<open>stack dc = inst # rest\<close> Cons by simp
      have "dc_end (Suc n) ds v ?dc1 =
              Some (\<lparr> hasActive = False, hasResult = True, result = v \<rparr>,
                    endEach ds completed (stack ?dc1) ?dc1)"
        using Suc.prems \<open>stack dc = inst # rest\<close> Cons st
        by (intro Suc.IH) simp_all
      moreover have "dc_end (Suc (Suc n)) ds v dc = dc_end (Suc n) ds v ?dc1"
        using st Cons none by (simp add: dc_end_def end_step_def resumeActive_def)
      ultimately show ?thesis
        using st \<open>stack dc = inst # rest\<close> by simp
    qed
  qed
qed

lemma dc_continue_auto_returns:
  assumes "stack dc = inst # rest"
    and "dialogContinue (ds (instance_id inst)) = None"
    and "\<forall>below \<in> set rest. dialogResume (ds (instance_id below)) = None"
    and "length (stack dc) \<le> Suc n"
  shows "dc_continue (Suc (Suc n)) ds dc =
           Some (\<lparr> hasActive = False, hasResult = True, result = JUndefined \<rparr>,
                 endEach ds completed (stack dc) dc)"
proof -
  have "dc_continue (Suc (Suc n)) ds dc = dc_end (Suc n) ds JUndefined dc"
    using assms(1,2) by (simp add: dc_continue_def dc_end_def continue_step_def)
  moreover have "\<forall>below \<in> set (tl (stack dc)). dialogResume (ds (instance_id below)) = None"
    using assms(1,3) by simp
  ultimately show ?thesis
    using dc_end_auto_returns [of dc ds n JUndefined] assms(4) by simp
qed

lemma example_continue_value:
  "dc_continue (Suc (Suc 0)) example_dialogs example_context =
     Some (EndOfTurn,
           \<lparr> turn_context = 1,
             stack = [parent_instance\<lparr>state := JUndefined\<rparr>],
             endings = [(child_instance, completed)] \<rparr>)"
  by (simp add: dc_continue_def continue_step_def end_step_def resumeActive_def
      endActiveDialog_def example_context_def example_dialogs_def child_dialog_def
      parent_dialog_def child_instance_def parent_instance_def)

lemma example_resume_value:
  "dc_resume (Suc (Suc 0)) example_dialogs (JBool True) example_context =
     Some (EndOfTurn,
           \<lparr> turn_context = 1,
             stack = [parent_instance\<lparr>state := JBool True\<rparr>],
             endings = [(child_instance, completed)] \<rparr>)"
  by (simp add: dc_resume_def end_step_def resumeActive_def
      endActiveDialog_def example_context_def example_dialogs_def child_dialog_def
      parent_dialog_def child_instance_def parent_instance_def)

text \<open>
  Claim C3. A dialog \<open>ds i\<close> that does not implement \<^verbatim>\<open>dialogContinue\<close> behaves, when a
  new turn is given to the context, as the same dialog with the \<^verbatim>\<open>dialogContinue\<close>
  that ends the dialog at once and forwards no result (\<^verbatim>\<open>return await dc.end()\<close>):
  from every state of the context, so also from those in which an instance of the dialog
  is the active one, and for every bound on the depth of the calls, the turn has the same
  outcome (the same turn result and the same state of the context, or no return for both).
\<close>

theorem auto_end_equivalence:
  assumes "dialogContinue (ds i) = None"
  shows "dc_continue n ds dc =
           dc_continue n (ds(i := (ds i)\<lparr>dialogContinue := Some continue_by_ending\<rparr>)) dc"
proof -
  let ?ds' = "ds(i := (ds i)\<lparr>dialogContinue := Some continue_by_ending\<rparr>)"
  have "dc_ops ?ds' n = dc_ops ds n"
    by (rule dc_ops_same) (simp_all add: effective_continue_def effective_resume_def assms)
  then show ?thesis by (simp add: dc_continue_def)
qed

theorem auto_end_equivalence_witness:
  "dialogContinue (example_dialogs ''child'') = None \<and>
   instance_id (hd (stack example_context)) = ''child'' \<and>
   dc_continue (Suc (Suc 0))
     (example_dialogs(''child'' :=
        (example_dialogs ''child'')\<lparr>dialogContinue := Some continue_by_ending\<rparr>))
     example_context =
     Some (EndOfTurn,
           \<lparr> turn_context = 1,
             stack = [parent_instance\<lparr>state := JUndefined\<rparr>],
             endings = [(child_instance, completed)] \<rparr>)"
proof -
  have none: "dialogContinue (example_dialogs ''child'') = None"
    by (simp add: example_dialogs_def child_dialog_def)
  have top: "instance_id (hd (stack example_context)) = ''child''"
    by (simp add: example_context_def child_instance_def)
  from auto_end_equivalence
    [of example_dialogs "''child''" "Suc (Suc 0)" example_context, OF none] none top
  show ?thesis by (simp add: example_continue_value)
qed

text \<open>
  Claim C4. A dialog \<open>ds i\<close> that does not implement \<^verbatim>\<open>dialogResume\<close> behaves, when it
  is resumed with a value \<open>v\<close>, as the same dialog with the \<^verbatim>\<open>dialogResume\<close> that ends
  the dialog at once and forwards \<open>v\<close> unchanged (\<^verbatim>\<open>return await dc.end(result)\<close>): for
  every value, every state of the context and every bound on the depth of the calls, the
  resumption has the same outcome.
\<close>

theorem result_pass_through_equivalence:
  assumes "dialogResume (ds i) = None"
  shows "dc_resume n ds v dc =
           dc_resume n (ds(i := (ds i)\<lparr>dialogResume := Some resume_by_forwarding\<rparr>)) v dc"
proof -
  let ?ds' = "ds(i := (ds i)\<lparr>dialogResume := Some resume_by_forwarding\<rparr>)"
  have same: "dc_ops ?ds' n = dc_ops ds n"
    by (rule dc_ops_same) (simp_all add: effective_continue_def effective_resume_def assms)
  have "\<And>j. effective_resume (?ds' j) = effective_resume (ds j)"
    by (simp add: effective_resume_def assms)
  then show ?thesis
    by (simp add: dc_resume_def resumeActive_effective same split: list.splits)
qed

theorem result_pass_through_equivalence_witness:
  "dialogResume (example_dialogs ''child'') = None \<and>
   dc_resume (Suc (Suc 0))
     (example_dialogs(''child'' :=
        (example_dialogs ''child'')\<lparr>dialogResume := Some resume_by_forwarding\<rparr>))
     (JBool True) example_context =
     Some (EndOfTurn,
           \<lparr> turn_context = 1,
             stack = [parent_instance\<lparr>state := JBool True\<rparr>],
             endings = [(child_instance, completed)] \<rparr>)"
proof -
  have none: "dialogResume (example_dialogs ''child'') = None"
    by (simp add: example_dialogs_def child_dialog_def)
  from result_pass_through_equivalence
    [of example_dialogs "''child''" "Suc (Suc 0)" "JBool True" example_context, OF none] none
  show ?thesis by (simp add: example_resume_value)
qed

subsection \<open>ConfirmPrompt.onPrompt\<close>

text \<open>
  Claim C7, as the code has it. On a retry turn whose options hold a truthy
  \<^verbatim>\<open>retryPrompt\<close>, \<^verbatim>\<open>onPrompt\<close> renders the retry prompt with \<^verbatim>\<open>retrySpeak\<close>. In
  every other case (a retry turn without a truthy retry prompt included) it renders the
  original prompt with \<^verbatim>\<open>speak\<close> when \<^verbatim>\<open>options.prompt\<close> is truthy, and renders
  nothing when it is not.
\<close>

theorem onPrompt_renders:
  "(isRetry \<and> truthy (retryPrompt options) \<longrightarrow>
      onPrompt render this c st options isRetry =
        render (this_prompt this) c (retryPrompt options) (retrySpeak options)) \<and>
   (\<not> (isRetry \<and> truthy (retryPrompt options)) \<and> truthy (prompt options) \<longrightarrow>
      onPrompt render this c st options isRetry =
        render (this_prompt this) c (prompt options) (speak options)) \<and>
   (\<not> (isRetry \<and> truthy (retryPrompt options)) \<and> \<not> truthy (prompt options) \<longrightarrow>
      onPrompt render this c st options isRetry = c)"
  by (simp add: onPrompt_def)

theorem onPrompt_renders_witness:
  "onPrompt render_log example_prompt [] JUndefined
     (no_options\<lparr>prompt := JStr ''Are you sure?'', retryPrompt := JStr ''Please answer yes or no.''\<rparr>) True
     = [(JStr ''Please answer yes or no.'', JUndefined)] \<and>
   onPrompt render_log example_prompt [] JUndefined
     (no_options\<lparr>prompt := JStr ''Are you sure?''\<rparr>) True
     = [(JStr ''Are you sure?'', JUndefined)] \<and>
   onPrompt render_log example_prompt [] JUndefined no_options True = []"
  using
    onPrompt_renders [of True
      "no_options\<lparr>prompt := JStr ''Are you sure?'', retryPrompt := JStr ''Please answer yes or no.''\<rparr>"
      render_log example_prompt "[]" JUndefined]
    onPrompt_renders [of True "no_options\<lparr>prompt := JStr ''Are you sure?''\<rparr>"
      render_log example_prompt "[]" JUndefined]
    onPrompt_renders [of True no_options render_log example_prompt "[]" JUndefined]
  by (simp add: no_options_def render_log_def)

text \<open>
  The claim as it is written (``in every other case the original prompt is rendered'')
  fails when the options hold no prompt: on a first turn with no prompt nothing is
  rendered, where rendering the original prompt would add an entry.
\<close>

theorem onPrompt_original_not_always_rendered:
  "onPrompt render_log example_prompt [] JUndefined no_options False = [] \<and>
   onPrompt render_log example_prompt [] JUndefined no_options False \<noteq>
     render_log (this_prompt example_prompt) [] (prompt no_options) (speak no_options)"
  by (simp add: onPrompt_def no_options_def render_log_def)

subsection \<open>The choices of ConfirmPrompt\<close>

lemma first_construction_value:
  "first_construction =
     (\<lparr> id_field = ''confirmPrompt'', validator = None,
         this_prompt = \<lparr> choices = 0, style = JUndefined, choiceOptions = Map.empty \<rparr> \<rparr>,
      \<lparr> heap = [0 \<mapsto> [''*'' \<mapsto> [''yes'', ''no'']], 1 \<mapsto> [''*'' \<mapsto> [''yes'', ''no'']]],
        ConfirmPrompt_choices = 0 \<rparr>)"
  by (simp add: first_construction_def ConfirmPrompt_new_def createConfirmPrompt_at_def
      initial_state_def)

lemma mutated_state_value:
  "mutated_state =
     \<lparr> heap = [0 \<mapsto> [''*'' \<mapsto> [''yes'', ''no''], ''es'' \<mapsto> [''si'', ''no'']],
               1 \<mapsto> [''*'' \<mapsto> [''yes'', ''no'']]],
       ConfirmPrompt_choices = 0 \<rparr>"
  by (simp add: mutated_state_def first_construction_value choices_assign_def fun_upd_twist)

text \<open>
  Claim C9. The constructor stores the reference held by the static
  \<^verbatim>\<open>ConfirmPrompt.choices\<close> in the wrapped prompt, not a copy of the object. So the
  choices of an instance are the static object itself, and an assignment made through
  the static property is read through an instance constructed before it (\<open>p1\<close>) and
  through one constructed after it (\<open>p2\<close>). The hypotheses \<open>kept\<close> say of the
  external \<^verbatim>\<open>createConfirmPrompt\<close> that it leaves the static property and its object
  alone; \<open>live\<close> says that the static property refers to an object.
\<close>

theorem ConfirmPrompt_choices_aliased:
  assumes first: "ConfirmPrompt_new create id1 val1 loc1 s0 = (p1, s1)"
    and mutate: "s2 = choices_assign (ConfirmPrompt_choices s1) locale words s1"
    and second: "ConfirmPrompt_new create id2 val2 loc2 s2 = (p2, s3)"
    and kept: "ConfirmPrompt_choices s3 = ConfirmPrompt_choices s2"
      "heap s3 (ConfirmPrompt_choices s2) = heap s2 (ConfirmPrompt_choices s2)"
    and live: "heap s1 (ConfirmPrompt_choices s1) \<noteq> None"
  shows "choices (this_prompt p1) = ConfirmPrompt_choices s1 \<and>
         choices (this_prompt p2) = ConfirmPrompt_choices s3 \<and>
         heap s1 (choices (this_prompt p1)) = heap s1 (ConfirmPrompt_choices s1) \<and>
         heap s3 (choices (this_prompt p1)) = heap s3 (ConfirmPrompt_choices s3) \<and>
         heap s3 (choices (this_prompt p2)) = heap s3 (ConfirmPrompt_choices s3) \<and>
         choices_read (choices (this_prompt p1)) locale s2 = Some words \<and>
         choices_read (choices (this_prompt p1)) locale s3 = Some words \<and>
         choices_read (choices (this_prompt p2)) locale s3 = Some words"
proof -
  have a1: "choices (this_prompt p1) = ConfirmPrompt_choices s1"
    using first by (auto simp add: ConfirmPrompt_new_def split: prod.splits)
  have a2: "choices (this_prompt p2) = ConfirmPrompt_choices s3"
    using second by (auto simp add: ConfirmPrompt_new_def split: prod.splits)
  have same12: "ConfirmPrompt_choices s2 = ConfirmPrompt_choices s1"
    using mutate by (simp add: choices_assign_def split: option.splits)
  have r2: "choices_read (ConfirmPrompt_choices s1) locale s2 = Some words"
    using mutate live by (auto simp add: choices_assign_def choices_read_def)
  have r3: "choices_read (ConfirmPrompt_choices s1) locale s3 = Some words"
    using r2 kept same12 by (simp add: choices_read_def)
  show ?thesis
    using a1 a2 same12 kept r2 r3 by simp
qed

theorem ConfirmPrompt_choices_aliased_witness:
  "choices (this_prompt (fst first_construction)) = 0 \<and>
   choices (this_prompt (fst second_construction)) = 0 \<and>
   ConfirmPrompt_choices (snd second_construction) = 0 \<and>
   choices_read (choices (this_prompt (fst first_construction))) ''es'' (snd second_construction)
     = Some [''si'', ''no''] \<and>
   choices_read (choices (this_prompt (fst second_construction))) ''es'' (snd second_construction)
     = Some [''si'', ''no'']"
proof -
  have first: "ConfirmPrompt_new (createConfirmPrompt_at 1) ''confirmPrompt'' (None :: unit option) None
      initial_state = (fst first_construction, snd first_construction)"
    by (simp add: first_construction_def)
  have mutate: "mutated_state =
      choices_assign (ConfirmPrompt_choices (snd first_construction)) ''es'' [''si'', ''no'']
        (snd first_construction)"
    by (simp add: mutated_state_def)
  have second: "ConfirmPrompt_new (createConfirmPrompt_at 1) ''confirmAgain'' (None :: unit option) None
      mutated_state = (fst second_construction, snd second_construction)"
    by (simp add: second_construction_def)
  have st: "ConfirmPrompt_choices (snd second_construction) = 0"
    by (simp add: second_construction_def ConfirmPrompt_new_def createConfirmPrompt_at_def
        mutated_state_value)
  have kept1: "ConfirmPrompt_choices (snd second_construction) = ConfirmPrompt_choices mutated_state"
    by (simp add: st mutated_state_value)
  have kept2: "heap (snd second_construction) (ConfirmPrompt_choices mutated_state)
      = heap mutated_state (ConfirmPrompt_choices mutated_state)"
    by (simp add: second_construction_def ConfirmPrompt_new_def createConfirmPrompt_at_def
        mutated_state_value)
  have live: "heap (snd first_construction) (ConfirmPrompt_choices (snd first_construction)) \<noteq> None"
    by (simp add: first_construction_value)
  have st1: "ConfirmPrompt_choices (snd first_construction) = 0"
    by (simp add: first_construction_value)
  from ConfirmPrompt_choices_aliased [OF first mutate second kept1 kept2 live] st st1
  show ?thesis by auto
qed

subsection \<open>ConversationUpdateBot: members removed\<close>

text \<open>
  Claim C10. In the members-removed handler the name computed for a missing team is
  never used: the text of the card reads \<^verbatim>\<open>teamInfo.name\<close> itself. With no team the
  handler raises after writing to the console, before anything is sent and without
  calling \<^verbatim>\<open>next\<close>; with a team the text holds the name of the team. The
  members-added handler, with no team, sends its card with the text ``not in team''.
\<close>

theorem members_removed_fallback_unused:
  "onTeamsMembersRemovedEvent_handler members None next_handler s =
     (console_log members s, Some TypeError) \<and>
   sent (fst (onTeamsMembersRemovedEvent_handler members None next_handler s)) = sent s \<and>
   onTeamsMembersRemovedEvent_handler members (Some t) next_handler s =
     next_handler (sendActivity
       (HeroCard_message ''Account Removed''
          (forEach_ids [] members @ '' removed from '' @ template_string (team_name t) @ ''.''))
       (console_log members s)) \<and>
   onTeamsMembersAddedEvent_handler members None next_handler s =
     next_handler (sendActivity
       (HeroCard_message ''Account Added'' (forEach_ids [] members @ '' joined not in team.''))
       (console_log members s))"
  by (simp add: onTeamsMembersRemovedEvent_handler_def onTeamsMembersAddedEvent_handler_def
      console_log_def template_string_def Let_def)

theorem members_removed_fallback_unused_witness:
  "onTeamsMembersRemovedEvent_handler [\<lparr> account_id = ''u1'' \<rparr>, \<lparr> account_id = ''u2'' \<rparr>] None
     (\<lambda>s. (s, None)) \<lparr> sent = [], console = [] \<rparr> =
     (\<lparr> sent = [], console = [[\<lparr> account_id = ''u1'' \<rparr>, \<lparr> account_id = ''u2'' \<rparr>]] \<rparr>,
      Some TypeError) \<and>
   onTeamsMembersRemovedEvent_handler [\<lparr> account_id = ''u1'' \<rparr>, \<lparr> account_id = ''u2'' \<rparr>]
     (Some \<lparr> team_name = Some ''Sales'' \<rparr>) (\<lambda>s. (s, None)) \<lparr> sent = [], console = [] \<rparr> =
     (\<lparr> sent = [HeroCard_message ''Account Removed'' ''u1 u2  removed from Sales.''],
        console = [[\<lparr> account_id = ''u1'' \<rparr>, \<lparr> account_id = ''u2'' \<rparr>]] \<rparr>,
      None) \<and>
   onTeamsMembersAddedEvent_handler [\<lparr> account_id = ''u1'' \<rparr>, \<lparr> account_id = ''u2'' \<rparr>] None
     (\<lambda>s. (s, None)) \<lparr> sent = [], console = [] \<rparr> =
     (\<lparr> sent = [HeroCard_message ''Account Added'' ''u1 u2  joined not in team.''],
        console = [[\<lparr> account_id = ''u1'' \<rparr>, \<lparr> account_id = ''u2'' \<rparr>]] \<rparr>,
      None)"
  using members_removed_fallback_unused
    [of "[\<lparr> account_id = ''u1'' \<rparr>, \<lparr> account_id = ''u2'' \<rparr>]" "\<lambda>s. (s, None)"
      "\<lparr> sent = [], console = [] \<rparr>" "\<lparr> team_name = Some ''Sales'' \<rparr>"]
  by (simp add: console_log_def sendActivity_def template_string_def)

end
